theory Spec2Isabelle
  imports Main "HOL-Library.Word"
begin

unbundle bit_operations_syntax

section \<open>Shared machinery\<close>

text \<open>
  The header \<^verbatim>\<open>stl/random.h\<close> defines four class templates. An unsigned result type
  \<^verbatim>\<open>UIntType\<close> is a word \<open>'a word\<close>, \<^verbatim>\<open>std::size_t\<close> is a word \<open>'s word\<close> (16, 32 or
  64 bits, by platform), and \<^verbatim>\<open>unsigned long long\<close> is a 64-bit word. Member functions
  that mutate the object take the object and return the new one; the advancement operation
  \<^verbatim>\<open>operator()\<close> returns the generated value paired with the new object.
  Arithmetic on \<^verbatim>\<open>UIntType\<close> is the arithmetic of \<open>'a word\<close>: the result type is taken
  to be at least as wide as \<^verbatim>\<open>int\<close>, as \<^verbatim>\<open>uint_fast32_t\<close> and \<^verbatim>\<open>uint_fast64_t\<close> are, so
  that no operand is promoted to a wider signed type.
  Data members of the source end in an underscore (\<^verbatim>\<open>lcg_\<close>, \<^verbatim>\<open>buf_\<close>, \<^verbatim>\<open>n_\<close>, ...);
  the record fields carry the class as a prefix instead.
\<close>

type_synonym ull = "64 word"

text \<open>
  Every \<^verbatim>\<open>discard\<close> of the header is the loop
  \<^verbatim>\<open>while (z--) (void)operator()();\<close>
  which calls the advancement operation \<open>unat z\<close> times. \<open>advance\<close> is that loop for a
  given advancement operation, \<open>outputs\<close> collects the values returned by \<open>k\<close> calls.
\<close>

primrec advance :: "('e \<Rightarrow> 'v \<times> 'e) \<Rightarrow> nat \<Rightarrow> 'e \<Rightarrow> 'e" where
  "advance nxt 0 e = e"
| "advance nxt (Suc k) e = advance nxt k (snd (nxt e))"

primrec outputs :: "('e \<Rightarrow> 'v \<times> 'e) \<Rightarrow> nat \<Rightarrow> 'e \<Rightarrow> 'v list" where
  "outputs nxt 0 e = []"
| "outputs nxt (Suc k) e = fst (nxt e) # outputs nxt k (snd (nxt e))"

text \<open>An out-of-range subscript on \<^verbatim>\<open>std::array\<close> is undefined behaviour.\<close>

datatype error = OutOfRange

section \<open>linear\_congruential\_engine\<close>

text \<open>The template parameters \<^verbatim>\<open>a\<close>, \<^verbatim>\<open>c\<close>, \<^verbatim>\<open>m\<close> and the \<^verbatim>\<open>static_assert\<close> on them.\<close>

record 'w lcg_params =
  multiplier :: 'w
  increment :: 'w
  modulus :: 'w

definition lcg_valid :: "('a::len) word lcg_params \<Rightarrow> bool" where
  "lcg_valid p \<longleftrightarrow>
     modulus p > 0 \<and> multiplier p > 0 \<and> multiplier p < modulus p \<and>
     increment p \<ge> 0 \<and> increment p < modulus p"

record 'w lcg =
  lcg_state :: 'w

definition lcg_default_seed :: "('a::len) word" where
  "lcg_default_seed = 1"

definition lcg_min :: "('a::len) word lcg_params \<Rightarrow> 'a word" where
  "lcg_min p = 0"

definition lcg_max :: "('a::len) word lcg_params \<Rightarrow> 'a word" where
  "lcg_max p = modulus p - 1"

text \<open>\<^verbatim>\<open>_seed(value)\<close>\<close>

definition lcg_seed_value :: "('a::len) word lcg_params \<Rightarrow> 'a word \<Rightarrow> 'a word" where
  "lcg_seed_value p v =
     (if v mod modulus p = 0 \<and> increment p mod modulus p = 0
      then lcg_default_seed
      else v mod modulus p)"

text \<open>\<^verbatim>\<open>explicit linear_congruential_engine(result_type value)\<close> and the default constructor.\<close>

definition lcg_ctor :: "('a::len) word lcg_params \<Rightarrow> 'a word \<Rightarrow> 'a word lcg" where
  "lcg_ctor p v = \<lparr>lcg_state = lcg_seed_value p v\<rparr>"

definition lcg_ctor_default :: "('a::len) word lcg_params \<Rightarrow> 'a word lcg" where
  "lcg_ctor_default p = lcg_ctor p lcg_default_seed"

text \<open>\<^verbatim>\<open>seed(value)\<close>\<close>

definition lcg_seed :: "('a::len) word lcg_params \<Rightarrow> 'a word \<Rightarrow> 'a word lcg \<Rightarrow> 'a word lcg" where
  "lcg_seed p v e = e\<lparr>lcg_state := lcg_seed_value p v\<rparr>"

text \<open>\<^verbatim>\<open>operator()\<close>: \<^verbatim>\<open>return (lcg_ = (a * lcg_ + c) % m);\<close> in the arithmetic of \<^verbatim>\<open>UIntType\<close>.\<close>

definition lcg_next :: "('a::len) word lcg_params \<Rightarrow> 'a word lcg \<Rightarrow> 'a word \<times> 'a word lcg" where
  "lcg_next p e =
     (let x = (multiplier p * lcg_state e + increment p) mod modulus p
      in (x, e\<lparr>lcg_state := x\<rparr>))"

definition lcg_discard :: "('a::len) word lcg_params \<Rightarrow> ull \<Rightarrow> 'a word lcg \<Rightarrow> 'a word lcg" where
  "lcg_discard p z e = advance (lcg_next p) (unat z) e"

definition lcg_eq :: "('a::len) word lcg \<Rightarrow> 'a word lcg \<Rightarrow> bool" where
  "lcg_eq lhs rhs \<longleftrightarrow> lcg_state lhs = lcg_state rhs"

text \<open>\<^verbatim>\<open>minstd_rand0\<close> and \<^verbatim>\<open>minstd_rand\<close>, over \<^verbatim>\<open>uint_fast32_t\<close> (32 or 64 bits wide).\<close>

definition minstd_rand0 :: "('a::len) word lcg_params" where
  "minstd_rand0 = \<lparr>multiplier = 16807, increment = 0, modulus = 2147483647\<rparr>"

definition minstd_rand :: "('a::len) word lcg_params" where
  "minstd_rand = \<lparr>multiplier = 48271, increment = 0, modulus = 2147483647\<rparr>"

text \<open>The recurrence \<open>x = (a * x + c) mod m\<close> evaluated directly, on the naturals.\<close>

definition lcg_recurrence :: "nat \<Rightarrow> nat \<Rightarrow> nat \<Rightarrow> nat \<Rightarrow> nat" where
  "lcg_recurrence a c m x = (a * x + c) mod m"

section \<open>xorshift128\_engine\<close>

text \<open>
  \<^verbatim>\<open>buf_\<close> is a \<^verbatim>\<open>std::array<UIntType, 4>\<close>, \<^verbatim>\<open>n_\<close> a \<^verbatim>\<open>size_type\<close>. The constructors
  copy \<^verbatim>\<open>Seeds\<close> and value-initialise \<^verbatim>\<open>n_\<close>.
\<close>

record ('w, 'z) xorshift128 =
  xs_buf :: "'w list"
  xs_n :: 'z

definition xs_state_size :: "('s::len) word" where
  "xs_state_size = 4"

definition xs_default_seed :: "('a::len) word" where
  "xs_default_seed = 1"

definition xs_Seeds :: "('a::len) word list" where
  "xs_Seeds = [88675123, 123456789, 362436069, 521288629]"

definition xs_min :: "('a::len) word" where
  "xs_min = 0"

definition xs_max :: "('a::len) word" where
  "xs_max = - 1 - 1"

definition xs_ctor_default :: "(('a::len) word, ('s::len) word) xorshift128" where
  "xs_ctor_default = \<lparr>xs_buf = xs_Seeds, xs_n = 0\<rparr>"

text \<open>\<^verbatim>\<open>xorshift128_engine(UIntType seed) : buf_(Seeds), n_() { buf_[n_] = seed; }\<close>\<close>

definition xs_ctor :: "('a::len) word \<Rightarrow> ('a word, ('s::len) word) xorshift128" where
  "xs_ctor v = \<lparr>xs_buf = xs_Seeds[0 := v], xs_n = 0\<rparr>"

text \<open>
  \<^verbatim>\<open>seed(value)\<close> is \<^verbatim>\<open>buf_[n_] = value;\<close>: the subscript is \<^verbatim>\<open>n_\<close> itself, and a
  subscript outside the four elements is the error.
\<close>

definition xs_seed ::
  "('a::len) word \<Rightarrow> ('a word, ('s::len) word) xorshift128 \<Rightarrow> error + ('a word, 's word) xorshift128"
where
  "xs_seed v e =
     (if unat (xs_n e) < length (xs_buf e)
      then Inr (e\<lparr>xs_buf := (xs_buf e)[unat (xs_n e) := v]\<rparr>)
      else Inl OutOfRange)"

text \<open>
  \<^verbatim>\<open>operator()\<close>:
  \<^verbatim>\<open>const result_type x = buf_[++n_ % state_size], w = buf_[(n_ - 1) % state_size], t = (x ^ (x << 11));\<close>
  \<^verbatim>\<open>return (buf_[n_ % state_size] = (w ^ (w >> 19)) ^ (t ^ (t >> 8)));\<close>
  The increment is stored in \<^verbatim>\<open>n_\<close>; only the subscripts are reduced.
\<close>

definition xs_next ::
  "(('a::len) word, ('s::len) word) xorshift128 \<Rightarrow> 'a word \<times> ('a word, 's word) xorshift128"
where
  "xs_next e =
     (let n' = xs_n e + 1;
          x = xs_buf e ! unat (n' mod xs_state_size);
          w = xs_buf e ! unat ((n' - 1) mod xs_state_size);
          t = x XOR push_bit 11 x;
          y = (w XOR drop_bit 19 w) XOR (t XOR drop_bit 8 t)
      in (y, e\<lparr>xs_buf := (xs_buf e)[unat (n' mod xs_state_size) := y], xs_n := n'\<rparr>))"

definition xs_discard ::
  "ull \<Rightarrow> (('a::len) word, ('s::len) word) xorshift128 \<Rightarrow> ('a word, 's word) xorshift128"
where
  "xs_discard z e = advance xs_next (unat z) e"

definition xs_eq :: "('w, 'z) xorshift128 \<Rightarrow> ('w, 'z) xorshift128 \<Rightarrow> bool" where
  "xs_eq lhs rhs \<longleftrightarrow> xs_buf lhs = xs_buf rhs"

section \<open>subtract\_with\_carry\_engine\<close>

text \<open>
  The template parameters \<^verbatim>\<open>w\<close>, \<^verbatim>\<open>s\<close>, \<^verbatim>\<open>r\<close> are of type \<^verbatim>\<open>std::size_t\<close>;
  \<^verbatim>\<open>X_\<close> and \<^verbatim>\<open>cy_\<close> are \<^verbatim>\<open>std::array<UIntType, r>\<close>, \<^verbatim>\<open>i_\<close> a \<^verbatim>\<open>size_type\<close>.
\<close>

record 'z swc_params =
  word_size :: 'z
  short_lag :: 'z
  long_lag :: 'z

definition swc_valid :: "('s::len) word swc_params \<Rightarrow> bool" where
  "swc_valid p \<longleftrightarrow> 0 < word_size p \<and> 0 < short_lag p \<and> short_lag p < long_lag p"

record ('w, 'z) swc =
  swc_X :: "'w list"
  swc_cy :: "'w list"
  swc_i :: 'z

text \<open>
  \<^verbatim>\<open>static constexpr UIntType M = ((UIntType)1 << r);\<close>
  The shift is defined for \<open>r\<close> below the width of \<^verbatim>\<open>UIntType\<close>; a wider shift does not
  compile as a constant expression.
\<close>

definition swc_M :: "('s::len) word swc_params \<Rightarrow> ('a::len) word" where
  "swc_M p = push_bit (unat (long_lag p)) 1"

definition swc_default_seed :: "('a::len) word" where
  "swc_default_seed = 19780503"

definition swc_min :: "('s::len) word swc_params \<Rightarrow> ('a::len) word" where
  "swc_min p = 0"

definition swc_max :: "('s::len) word swc_params \<Rightarrow> ('a::len) word" where
  "swc_max p = swc_M p - 1"

text \<open>
  \<^verbatim>\<open>sN(i)\<close>: \<^verbatim>\<open>return X_[(i - s) % r] - X_[(i - r) % r] - cy_[(i - 1) % r];\<close>
  The subscripts are computed in \<^verbatim>\<open>std::size_t\<close>, where the subtraction wraps; reduced
  modulo \<open>r > 0\<close> they lie within the two arrays of \<open>r\<close> elements.
\<close>

definition swc_sN ::
  "('s::len) word swc_params \<Rightarrow> (('a::len) word, 's word) swc \<Rightarrow> 's word \<Rightarrow> 'a word"
where
  "swc_sN p e i =
     swc_X e ! unat ((i - short_lag p) mod long_lag p)
     - swc_X e ! unat ((i - long_lag p) mod long_lag p)
     - swc_cy e ! unat ((i - 1) mod long_lag p)"

text \<open>\<^verbatim>\<open>(typename std::make_signed<result_type>::type)(x) < 0 ? 1 : 0\<close>\<close>

definition swc_carry :: "('a::len) word \<Rightarrow> 'a word" where
  "swc_carry x = (if sint x < 0 then 1 else 0)"

text \<open>
  \<^verbatim>\<open>seed(value)\<close>: a \<^verbatim>\<open>minstd_rand\<close> (over \<^verbatim>\<open>uint_fast32_t\<close>, the word type \<open>'l\<close>) is
  constructed from \<^verbatim>\<open>value\<close>, and for \<^verbatim>\<open>i\<close> from 0 to \<^verbatim>\<open>r - 1\<close>:
  \<^verbatim>\<open>X_[i] = lcg(); cy_[i] = (signed)(sN(i)) < 0 ? 1 : 0;\<close>
  \<open>swc_seed_body\<close> is the body of that loop, on the pair of the local \<^verbatim>\<open>lcg\<close> and the
  engine. Nothing else is assigned: \<^verbatim>\<open>i_\<close> keeps its value. The first argument of
  \<open>swc_seed\<close> only fixes the width \<open>'l\<close> of \<^verbatim>\<open>uint_fast32_t\<close>; \<^verbatim>\<open>value\<close> and the outputs of
  \<^verbatim>\<open>lcg\<close> are converted between the two unsigned types.
\<close>

definition swc_seed_body ::
  "('s::len) word swc_params \<Rightarrow> nat \<Rightarrow>
   ('l::len) word lcg \<times> (('a::len) word, 's word) swc \<Rightarrow>
   'l word lcg \<times> ('a word, 's word) swc"
where
  "swc_seed_body p k st =
     (let (v, g) = lcg_next minstd_rand (fst st);
          e1 = (snd st)\<lparr>swc_X := (swc_X (snd st))[k := ucast v]\<rparr>;
          e2 = e1\<lparr>swc_cy := (swc_cy e1)[k := swc_carry (swc_sN p e1 (of_nat k))]\<rparr>
      in (g, e2))"

primrec swc_seed_loop ::
  "('s::len) word swc_params \<Rightarrow> nat list \<Rightarrow>
   ('l::len) word lcg \<times> (('a::len) word, 's word) swc \<Rightarrow>
   'l word lcg \<times> ('a word, 's word) swc"
where
  "swc_seed_loop p [] st = st"
| "swc_seed_loop p (k # ks) st = swc_seed_loop p ks (swc_seed_body p k st)"

definition swc_seed ::
  "('l::len) itself \<Rightarrow> ('s::len) word swc_params \<Rightarrow> ('a::len) word \<Rightarrow>
   ('a word, 's word) swc \<Rightarrow> ('a word, 's word) swc"
where
  "swc_seed fast32 p v e =
     snd (swc_seed_loop p [0 ..< unat (long_lag p)]
            (lcg_ctor minstd_rand (ucast v) :: 'l word lcg, e))"

text \<open>
  \<^verbatim>\<open>explicit subtract_with_carry_engine(result_type value) : X_(), cy_(), i_() { seed(value); }\<close>
\<close>

definition swc_ctor ::
  "('l::len) itself \<Rightarrow> ('s::len) word swc_params \<Rightarrow> ('a::len) word \<Rightarrow> ('a word, 's word) swc"
where
  "swc_ctor fast32 p v =
     swc_seed fast32 p v
       \<lparr>swc_X = replicate (unat (long_lag p)) 0,
        swc_cy = replicate (unat (long_lag p)) 0,
        swc_i = 0\<rparr>"

definition swc_ctor_default ::
  "('l::len) itself \<Rightarrow> ('s::len) word swc_params \<Rightarrow> (('a::len) word, 's word) swc"
where
  "swc_ctor_default fast32 p = swc_ctor fast32 p swc_default_seed"

text \<open>
  \<^verbatim>\<open>operator()\<close>:
  \<^verbatim>\<open>const result_type x = sN(i_);\<close>
  \<^verbatim>\<open>cy_[i_ % r] = (signed)(x) < 0 ? 1 : 0;\<close>
  \<^verbatim>\<open>return (X_[i_++ % r] = x % M);\<close>
\<close>

definition swc_next ::
  "('s::len) word swc_params \<Rightarrow> (('a::len) word, 's word) swc \<Rightarrow>
   'a word \<times> ('a word, 's word) swc"
where
  "swc_next p e =
     (let x = swc_sN p e (swc_i e);
          k = unat (swc_i e mod long_lag p);
          y = x mod swc_M p
      in (y, e\<lparr>swc_X := (swc_X e)[k := y],
               swc_cy := (swc_cy e)[k := swc_carry x],
               swc_i := swc_i e + 1\<rparr>))"

definition swc_discard ::
  "('s::len) word swc_params \<Rightarrow> ull \<Rightarrow> (('a::len) word, 's word) swc \<Rightarrow> ('a word, 's word) swc"
where
  "swc_discard p z e = advance (swc_next p) (unat z) e"

definition swc_eq :: "('w, 'z) swc \<Rightarrow> ('w, 'z) swc \<Rightarrow> bool" where
  "swc_eq lhs rhs \<longleftrightarrow> swc_X lhs = swc_X rhs \<and> swc_cy lhs = swc_cy rhs"

text \<open>\<^verbatim>\<open>ranlux24_base\<close> (over \<^verbatim>\<open>uint_fast32_t\<close>) and \<^verbatim>\<open>ranlux48_base\<close> (over \<^verbatim>\<open>uint_fast64_t\<close>).\<close>

definition ranlux24_base :: "('s::len) word swc_params" where
  "ranlux24_base = \<lparr>word_size = 24, short_lag = 10, long_lag = 24\<rparr>"

definition ranlux48_base :: "('s::len) word swc_params" where
  "ranlux48_base = \<lparr>word_size = 48, short_lag = 5, long_lag = 12\<rparr>"

section \<open>discard\_block\_engine\<close>

text \<open>
  The adaptor is a template over the class \<^verbatim>\<open>Engine\<close>. What it uses of that class is
  passed as a record of operations. \<^verbatim>\<open>seed\<close> of the base engine may fail (the
  subscript of the xorshift engine), every other operation returns.
\<close>

record ('e, 'v) engine_ops =
  eng_min :: 'v
  eng_max :: 'v
  eng_ctor_default :: 'e
  eng_ctor :: "'v \<Rightarrow> 'e"
  eng_seed :: "'v \<Rightarrow> 'e \<Rightarrow> error + 'e"
  eng_seed_default :: "'e \<Rightarrow> error + 'e"
  eng_next :: "'e \<Rightarrow> 'v \<times> 'e"
  eng_discard :: "ull \<Rightarrow> 'e \<Rightarrow> 'e"
  eng_eq :: "'e \<Rightarrow> 'e \<Rightarrow> bool"

definition lcg_ops :: "('a::len) word lcg_params \<Rightarrow> ('a word lcg, 'a word) engine_ops" where
  "lcg_ops p =
     \<lparr>eng_min = lcg_min p, eng_max = lcg_max p,
      eng_ctor_default = lcg_ctor_default p, eng_ctor = lcg_ctor p,
      eng_seed = (\<lambda>v e. Inr (lcg_seed p v e)),
      eng_seed_default = (\<lambda>e. Inr (lcg_seed p lcg_default_seed e)),
      eng_next = lcg_next p, eng_discard = lcg_discard p, eng_eq = lcg_eq\<rparr>"

definition xs_ops :: "((('a::len) word, ('s::len) word) xorshift128, 'a word) engine_ops" where
  "xs_ops =
     \<lparr>eng_min = xs_min, eng_max = xs_max,
      eng_ctor_default = xs_ctor_default, eng_ctor = xs_ctor,
      eng_seed = xs_seed,
      eng_seed_default = xs_seed xs_default_seed,
      eng_next = xs_next, eng_discard = xs_discard, eng_eq = xs_eq\<rparr>"

definition swc_ops ::
  "('l::len) itself \<Rightarrow> ('s::len) word swc_params \<Rightarrow>
   ((('a::len) word, 's word) swc, 'a word) engine_ops"
where
  "swc_ops fast32 p =
     \<lparr>eng_min = swc_min p, eng_max = swc_max p,
      eng_ctor_default = swc_ctor_default fast32 p, eng_ctor = swc_ctor fast32 p,
      eng_seed = (\<lambda>v e. Inr (swc_seed fast32 p v e)),
      eng_seed_default = (\<lambda>e. Inr (swc_seed fast32 p swc_default_seed e)),
      eng_next = swc_next p, eng_discard = swc_discard p, eng_eq = swc_eq\<rparr>"

text \<open>The template parameters \<^verbatim>\<open>P\<close> and \<^verbatim>\<open>R\<close>, and the members \<^verbatim>\<open>engine_\<close> and \<^verbatim>\<open>n_\<close>.\<close>

record 'z dbe_params =
  block_size :: 'z
  used_block :: 'z

record ('e, 'z) dbe =
  dbe_engine :: 'e
  dbe_n :: 'z

definition dbe_min :: "('e, 'v) engine_ops \<Rightarrow> 'v" where
  "dbe_min ops = eng_min ops"

definition dbe_max :: "('e, 'v) engine_ops \<Rightarrow> 'v" where
  "dbe_max ops = eng_max ops"

definition dbe_ctor_default :: "('e, 'v) engine_ops \<Rightarrow> ('e, ('s::len) word) dbe" where
  "dbe_ctor_default ops = \<lparr>dbe_engine = eng_ctor_default ops, dbe_n = 0\<rparr>"

definition dbe_ctor :: "('e, 'v) engine_ops \<Rightarrow> 'v \<Rightarrow> ('e, ('s::len) word) dbe" where
  "dbe_ctor ops v = \<lparr>dbe_engine = eng_ctor ops v, dbe_n = 0\<rparr>"

text \<open>\<^verbatim>\<open>explicit discard_block_engine(const Engine& other) : engine_(other), n_() {}\<close>\<close>

definition dbe_ctor_engine :: "'e \<Rightarrow> ('e, ('s::len) word) dbe" where
  "dbe_ctor_engine other = \<lparr>dbe_engine = other, dbe_n = 0\<rparr>"

definition dbe_base :: "('e, 'z) dbe \<Rightarrow> 'e" where
  "dbe_base d = dbe_engine d"

text \<open>\<^verbatim>\<open>void seed() { engine_.seed(); }\<close> and \<^verbatim>\<open>void seed(result_type value) { engine_.seed(value); }\<close>\<close>

definition dbe_seed_default :: "('e, 'v) engine_ops \<Rightarrow> ('e, 'z) dbe \<Rightarrow> error + ('e, 'z) dbe" where
  "dbe_seed_default ops d =
     (case eng_seed_default ops (dbe_engine d) of
        Inl err \<Rightarrow> Inl err
      | Inr e \<Rightarrow> Inr (d\<lparr>dbe_engine := e\<rparr>))"

definition dbe_seed :: "('e, 'v) engine_ops \<Rightarrow> 'v \<Rightarrow> ('e, 'z) dbe \<Rightarrow> error + ('e, 'z) dbe" where
  "dbe_seed ops v d =
     (case eng_seed ops v (dbe_engine d) of
        Inl err \<Rightarrow> Inl err
      | Inr e \<Rightarrow> Inr (d\<lparr>dbe_engine := e\<rparr>))"

text \<open>
  \<^verbatim>\<open>operator()\<close>:
  \<^verbatim>\<open>if (n_ >= used_block) { engine_.discard(block_size - used_block); n_ = 0; }\<close>
  \<^verbatim>\<open>++n_;\<close>
  \<^verbatim>\<open>return engine_();\<close>
  The difference is computed in \<^verbatim>\<open>std::size_t\<close> and converted to \<^verbatim>\<open>unsigned long long\<close>.
\<close>

definition dbe_next ::
  "('e, 'v) engine_ops \<Rightarrow> ('s::len) word dbe_params \<Rightarrow> ('e, 's word) dbe \<Rightarrow>
   'v \<times> ('e, 's word) dbe"
where
  "dbe_next ops p d =
     (let d1 = (if dbe_n d \<ge> used_block p
                then d\<lparr>dbe_engine := eng_discard ops (ucast (block_size p - used_block p)) (dbe_engine d),
                       dbe_n := 0\<rparr>
                else d);
          d2 = d1\<lparr>dbe_n := dbe_n d1 + 1\<rparr>;
          (v, e) = eng_next ops (dbe_engine d2)
      in (v, d2\<lparr>dbe_engine := e\<rparr>))"

definition dbe_discard ::
  "('e, 'v) engine_ops \<Rightarrow> ('s::len) word dbe_params \<Rightarrow> ull \<Rightarrow> ('e, 's word) dbe \<Rightarrow> ('e, 's word) dbe"
where
  "dbe_discard ops p z d = advance (dbe_next ops p) (unat z) d"

text \<open>\<^verbatim>\<open>operator==\<close> is \<^verbatim>\<open>lhs.base() == rhs.base()\<close>, \<^verbatim>\<open>operator!=\<close> is \<^verbatim>\<open>!(lhs == rhs)\<close>.\<close>

definition dbe_eq :: "('e, 'v) engine_ops \<Rightarrow> ('e, 'z) dbe \<Rightarrow> ('e, 'z) dbe \<Rightarrow> bool" where
  "dbe_eq ops lhs rhs \<longleftrightarrow> eng_eq ops (dbe_base lhs) (dbe_base rhs)"


text \<open>The adaptor is an engine itself and may be wrapped again.\<close>

definition dbe_ops ::
  "('e, 'v) engine_ops \<Rightarrow> ('s::len) word dbe_params \<Rightarrow> (('e, 's word) dbe, 'v) engine_ops"
where
  "dbe_ops ops p =
     \<lparr>eng_min = dbe_min ops, eng_max = dbe_max ops,
      eng_ctor_default = dbe_ctor_default ops, eng_ctor = dbe_ctor ops,
      eng_seed = dbe_seed ops,
      eng_seed_default = dbe_seed_default ops,
      eng_next = dbe_next ops p, eng_discard = dbe_discard ops p, eng_eq = dbe_eq ops\<rparr>"

text \<open>\<^verbatim>\<open>ranlux24\<close> and \<^verbatim>\<open>ranlux48\<close>.\<close>

definition ranlux24 :: "('s::len) word dbe_params" where
  "ranlux24 = \<lparr>block_size = 223, used_block = 23\<rparr>"

definition ranlux48 :: "('s::len) word dbe_params" where
  "ranlux48 = \<lparr>block_size = 389, used_block = 11\<rparr>"

section \<open>Properties of the linear congruential engine\<close>

text \<open>
  C6. \<^verbatim>\<open>seed(v)\<close> sets the state to \<open>v mod m\<close>, read on the naturals, except that the
  state is the default seed 1 when both \<open>v mod m = 0\<close> and \<open>c mod m = 0\<close>; construction
  from the value \<open>v\<close> gives the engine that \<^verbatim>\<open>seed(v)\<close> gives.
\<close>

theorem lcg_seed_sets_state:
  fixes p :: "('a::len) word lcg_params"
  shows "unat (lcg_state (lcg_seed p v e)) =
           (if unat v mod unat (modulus p) = 0 \<and> unat (increment p) mod unat (modulus p) = 0
            then 1 else unat v mod unat (modulus p))
       \<and> lcg_ctor p v = lcg_seed p v e"
proof -
  have m: "\<And>x::'a word. x mod modulus p = 0 \<longleftrightarrow> unat x mod unat (modulus p) = 0"
    by (simp add: unat_eq_0 [symmetric] unat_mod del: unat_eq_0)
  have "unat (lcg_state (lcg_seed p v e)) =
           (if unat v mod unat (modulus p) = 0 \<and> unat (increment p) mod unat (modulus p) = 0
            then 1 else unat v mod unat (modulus p))"
    by (simp add: lcg_seed_def lcg_seed_value_def lcg_default_seed_def m unat_mod)
  moreover have "lcg_ctor p v = lcg_seed p v e"
    by (simp add: lcg_seed_def lcg_ctor_def)
  ultimately show ?thesis by simp
qed

theorem lcg_seed_sets_state_witness:
  "unat (lcg_state (lcg_seed minstd_rand (2147483647 :: 32 word) (lcg_ctor minstd_rand 7))) = 1
   \<and> lcg_ctor minstd_rand (2147483647 :: 32 word)
       = lcg_seed minstd_rand 2147483647 (lcg_ctor minstd_rand 7)"
proof -
  have "unat (2147483647 :: 32 word) mod unat (modulus (minstd_rand :: 32 word lcg_params)) = 0"
    by (simp add: minstd_rand_def)
  moreover have "unat (increment (minstd_rand :: 32 word lcg_params))
      mod unat (modulus (minstd_rand :: 32 word lcg_params)) = 0"
    by (simp add: minstd_rand_def)
  ultimately show ?thesis
    using lcg_seed_sets_state
      [of "minstd_rand :: 32 word lcg_params" 2147483647 "lcg_ctor minstd_rand 7"]
    by presburger
qed

text \<open>The first outputs of \<^verbatim>\<open>minstd_rand\<close> seeded with 1, at both widths of \<^verbatim>\<open>uint_fast32_t\<close>.\<close>

lemma minstd_rand_outputs_32:
  "outputs (lcg_next minstd_rand) 3 (lcg_ctor minstd_rand 1 :: 32 word lcg)
     = [48271, 182605794, 1291390782]"
  by code_simp

lemma minstd_rand_outputs_64:
  "outputs (lcg_next minstd_rand) 3 (lcg_ctor minstd_rand 1 :: 64 word lcg)
     = [48271, 182605794, 1291394886]"
  by code_simp

lemma minstd_rand_outputs_32_2:
  "outputs (lcg_next minstd_rand) 2 (lcg_ctor minstd_rand 1 :: 32 word lcg)
     = [48271, 182605794]"
  by code_simp

text \<open>
  C5, as stated, fails: the third output of \<^verbatim>\<open>minstd_rand\<close> seeded with 1 is not
  1335424460, neither with a 32-bit nor with a 64-bit \<^verbatim>\<open>uint_fast32_t\<close>, and the
  recurrence evaluated directly at 182605794 does not give that number either.
\<close>

theorem minstd_rand_third_output_counterexample:
  "outputs (lcg_next minstd_rand) 3 (lcg_ctor minstd_rand 1 :: 32 word lcg)
     \<noteq> [48271, 182605794, 1335424460]
   \<and> outputs (lcg_next minstd_rand) 3 (lcg_ctor minstd_rand 1 :: 64 word lcg)
     \<noteq> [48271, 182605794, 1335424460]
   \<and> lcg_recurrence 48271 0 2147483647 182605794 \<noteq> 1335424460"
  by (simp add: minstd_rand_outputs_32 minstd_rand_outputs_64 lcg_recurrence_def)

text \<open>
  C5, amended. \<^verbatim>\<open>minstd_rand\<close> seeded with 1 produces 48271 and 182605794 as its first
  two outputs; where \<^verbatim>\<open>uint_fast32_t\<close> is 64 bits wide its third output is 1291394886;
  each of the three is the recurrence \<open>x = (a * x + c) mod m\<close> evaluated directly.
\<close>

theorem minstd_rand_first_outputs:
  "outputs (lcg_next minstd_rand) 2 (lcg_ctor minstd_rand 1 :: 32 word lcg) = [48271, 182605794]
   \<and> outputs (lcg_next minstd_rand) 3 (lcg_ctor minstd_rand 1 :: 64 word lcg)
       = [48271, 182605794, 1291394886]
   \<and> [48271, 182605794, 1291394886]
       = [lcg_recurrence 48271 0 2147483647 1,
          lcg_recurrence 48271 0 2147483647 48271,
          lcg_recurrence 48271 0 2147483647 182605794]"
  by (simp add: minstd_rand_outputs_32_2 minstd_rand_outputs_64 lcg_recurrence_def)

section \<open>Output ranges\<close>

text \<open>
  The linear congruential engine and the subtract-with-carry engine stay within their own
  \<^verbatim>\<open>min()\<close> and \<^verbatim>\<open>max()\<close>; the adaptor returns a value of its base engine.
\<close>

lemma word_mod_le_pred:
  fixes x m :: "('a::len) word"
  assumes "0 < m"
  shows "x mod m \<le> m - 1"
proof -
  from assms have pos: "0 < unat m" by (simp add: word_less_nat_alt)
  then have "1 \<le> m" by (simp add: word_le_nat_alt)
  then have "unat (m - 1) = unat m - 1" by (simp add: unat_sub)
  moreover have "unat (x mod m) < unat m" using pos by (simp add: unat_mod)
  ultimately show ?thesis by (simp add: word_le_nat_alt)
qed

lemma lcg_output_bounds:
  assumes "lcg_valid p"
  shows "lcg_min p \<le> fst (lcg_next p e) \<and> fst (lcg_next p e) \<le> lcg_max p"
  using assms
  by (simp add: lcg_valid_def lcg_next_def lcg_min_def lcg_max_def Let_def word_mod_le_pred)

lemma swc_M_pos:
  fixes p :: "('s::len) word swc_params"
  assumes "unat (long_lag p) < LENGTH('a::len)"
  shows "0 < (swc_M p :: 'a word)"
proof -
  have "(swc_M p :: 'a word) = 2 ^ unat (long_lag p)"
    by (simp add: swc_M_def push_bit_eq_mult)
  moreover have "(2 :: 'a word) ^ unat (long_lag p) \<noteq> 0"
    using assms by simp
  ultimately show ?thesis by (simp add: word_gt_0)
qed

lemma swc_output_bounds:
  fixes p :: "('s::len) word swc_params" and e :: "(('a::len) word, 's word) swc"
  assumes "unat (long_lag p) < LENGTH('a)"
  shows "swc_min p \<le> fst (swc_next p e) \<and> fst (swc_next p e) \<le> swc_max p"
  using swc_M_pos [OF assms]
  by (simp add: swc_next_def swc_min_def swc_max_def Let_def word_mod_le_pred)

lemma swc_output_is_mod:
  fixes p :: "('s::len) word swc_params" and e :: "(('a::len) word, 's word) swc"
  assumes "unat (long_lag p) < LENGTH('a)"
  shows "unat (fst (swc_next p e)) = unat (swc_sN p e (swc_i e)) mod 2 ^ unat (long_lag p)"
proof -
  have "(swc_M p :: 'a word) = 2 ^ unat (long_lag p)"
    by (simp add: swc_M_def push_bit_eq_mult)
  moreover have "unat ((2 :: 'a word) ^ unat (long_lag p)) = 2 ^ unat (long_lag p)"
    using assms by (simp add: of_nat_inverse)
  ultimately show ?thesis by (simp add: swc_next_def Let_def unat_mod)
qed

lemma dbe_output_is_base_output:
  "\<exists>e. fst (dbe_next ops p d) = fst (eng_next ops e)"
  by (auto simp: dbe_next_def Let_def split: prod.splits) (metis fst_conv)+

section \<open>Properties of the xorshift engine\<close>

text \<open>Each call of \<^verbatim>\<open>operator()\<close> adds one to \<^verbatim>\<open>n_\<close> and keeps the size of the buffer.\<close>

lemma xs_n_advance:
  "xs_n (advance xs_next k e) = xs_n e + of_nat k"
  by (induction k arbitrary: e) (simp_all add: xs_next_def Let_def)

lemma xs_buf_length_advance:
  "length (xs_buf (advance xs_next k e)) = length (xs_buf e)"
  by (induction k arbitrary: e) (simp_all add: xs_next_def Let_def)

text \<open>
  After \<open>k\<close> calls on a default-constructed engine \<^verbatim>\<open>seed\<close> is out of range exactly
  when \<open>k\<close>, reduced to the width of \<^verbatim>\<open>std::size_t\<close>, is at least 4.
\<close>

lemma xs_seed_out_of_range_iff:
  "xs_seed v (advance xs_next k (xs_ctor_default :: (('a::len) word, ('s::len) word) xorshift128))
     = Inl OutOfRange \<longleftrightarrow> 4 \<le> unat (of_nat k :: 's word)"
  by (simp add: xs_seed_def xs_n_advance xs_buf_length_advance xs_ctor_default_def xs_Seeds_def
      not_less)

lemma xs_four_calls_index:
  "xs_n (advance xs_next 4 (xs_ctor_default :: (32 word, 32 word) xorshift128)) = 4"
  by code_simp

lemma xs_four_calls_length:
  "length (xs_buf (advance xs_next 4 (xs_ctor_default :: (32 word, 32 word) xorshift128))) = 4"
  by code_simp

lemma xs_four_calls_seed:
  "xs_seed 5 (advance xs_next 4 (xs_ctor_default :: (32 word, 32 word) xorshift128))
     = Inl OutOfRange"
  by code_simp

text \<open>
  C2. A default-constructed engine over 32-bit words (32-bit \<^verbatim>\<open>std::size_t\<close>) that has
  been advanced four times has \<^verbatim>\<open>n_ = 4\<close>, and \<^verbatim>\<open>seed(5)\<close> then writes \<^verbatim>\<open>buf_[4]\<close>,
  outside the four elements of the buffer.
\<close>

theorem xs_seed_after_four_calls:
  "xs_n (advance xs_next 4 (xs_ctor_default :: (32 word, 32 word) xorshift128)) = 4
   \<and> length (xs_buf (advance xs_next 4 (xs_ctor_default :: (32 word, 32 word) xorshift128))) = 4
   \<and> xs_seed 5 (advance xs_next 4 (xs_ctor_default :: (32 word, 32 word) xorshift128))
       = Inl OutOfRange"
  by (intro conjI xs_four_calls_index xs_four_calls_length xs_four_calls_seed)

lemma xs_first_output:
  "fst (xs_next (xs_ctor 638954829 :: (32 word, 32 word) xorshift128)) = 4294967295"
  by code_simp

lemma xs_max_32: "(xs_max :: 32 word) = 4294967294"
  by code_simp

text \<open>
  C3. The engine constructed from the seed value 638954829 returns \<open>2^32 - 1\<close> at its
  first call, above \<^verbatim>\<open>max()\<close>, which is \<open>2^32 - 2\<close>.
\<close>

theorem xs_output_above_max:
  "fst (xs_next (xs_ctor 638954829 :: (32 word, 32 word) xorshift128)) = 4294967295
   \<and> (xs_max :: 32 word) = 4294967294
   \<and> \<not> fst (xs_next (xs_ctor 638954829 :: (32 word, 32 word) xorshift128)) \<le> xs_max"
proof -
  have "\<not> (4294967295 :: 32 word) \<le> 4294967294" by simp
  then show ?thesis by (simp only: xs_first_output xs_max_32 simp_thms)
qed

section \<open>Properties of the subtract-with-carry engine\<close>

text \<open>\<^verbatim>\<open>max()\<close> is \<open>2^r - 1\<close>, for the long lag \<open>r\<close>.\<close>

lemma swc_max_is_pow_long_lag:
  fixes p :: "('s::len) word swc_params"
  assumes "unat (long_lag p) < LENGTH('a::len)"
  shows "unat (swc_max p :: 'a word) = 2 ^ unat (long_lag p) - 1"
proof -
  have M: "(swc_M p :: 'a word) = 2 ^ unat (long_lag p)"
    by (simp add: swc_M_def push_bit_eq_mult)
  have u: "unat ((2 :: 'a word) ^ unat (long_lag p)) = 2 ^ unat (long_lag p)"
    using assms by (simp add: of_nat_inverse)
  then have "1 \<le> (2 :: 'a word) ^ unat (long_lag p)"
    by (simp add: word_le_nat_alt)
  then have "unat ((2 :: 'a word) ^ unat (long_lag p) - 1) = unat ((2 :: 'a word) ^ unat (long_lag p)) - unat (1 :: 'a word)"
    by (rule unat_sub)
  then show ?thesis by (simp add: swc_max_def M u)
qed


lemma ranlux48_base_max: "(swc_max (ranlux48_base :: 64 word swc_params) :: 64 word) = 4095"
  by code_simp

lemma ranlux48_base_raw:
  "swc_sN ranlux48_base
     (swc_ctor_default TYPE(64) (ranlux48_base :: 64 word swc_params) :: (64 word, 64 word) swc) 0
   = 18446744073691360946"
  by code_simp

lemma ranlux48_base_first_output:
  "fst (swc_next ranlux48_base
     (swc_ctor_default TYPE(64) (ranlux48_base :: 64 word swc_params) :: (64 word, 64 word) swc))
   = 3762"
  by code_simp

text \<open>
  C1. For \<^verbatim>\<open>ranlux48_base\<close> (\<open>w = 48\<close>, \<open>s = 5\<close>, \<open>r = 12\<close>) \<^verbatim>\<open>max()\<close> is \<open>2^12 - 1 = 4095\<close>,
  not \<open>2^48 - 1\<close>, and the first output of the default-constructed engine is 3762, the
  raw difference reduced modulo \<open>2^12\<close>; reduced modulo \<open>2^48\<close> it is 281474958519986.
\<close>

theorem ranlux48_base_modulus:
  "(swc_max (ranlux48_base :: 64 word swc_params) :: 64 word) = 4095
   \<and> (swc_max (ranlux48_base :: 64 word swc_params) :: 64 word) \<noteq> 2 ^ 48 - 1
   \<and> fst (swc_next ranlux48_base
        (swc_ctor_default TYPE(64) (ranlux48_base :: 64 word swc_params) :: (64 word, 64 word) swc))
       = 3762
   \<and> swc_sN ranlux48_base
        (swc_ctor_default TYPE(64) (ranlux48_base :: 64 word swc_params) :: (64 word, 64 word) swc) 0
         mod 2 ^ 48
       = 281474958519986"
proof -
  have "(4095 :: 64 word) \<noteq> 2 ^ 48 - 1" by simp
  moreover have "(18446744073691360946 :: 64 word) mod 2 ^ 48 = 281474958519986" by simp
  ultimately show ?thesis
    by (simp only: ranlux48_base_max ranlux48_base_raw ranlux48_base_first_output simp_thms)
qed




lemma ranlux24_reseed_default_cy:
  "swc_cy (swc_seed TYPE(32) ranlux24_base 1
     (swc_ctor_default TYPE(32) (ranlux24_base :: 32 word swc_params) :: (32 word, 32 word) swc))
   = [0, 0, 1, 0, 1, 1, 1, 1, 0, 0, 1, 1, 0, 0, 0, 0, 1, 1, 1, 0, 1, 1, 0, 0]"
  by code_simp

lemma ranlux24_reseed_one_cy:
  "swc_cy (swc_seed TYPE(32) ranlux24_base 1
     (swc_ctor TYPE(32) (ranlux24_base :: 32 word swc_params) 1 :: (32 word, 32 word) swc))
   = [1, 1, 1, 0, 0, 0, 0, 1, 0, 0, 1, 1, 0, 0, 0, 0, 1, 1, 1, 0, 1, 1, 0, 0]"
  by code_simp

lemma ranlux24_reseed_eq:
  "swc_eq
     (swc_seed TYPE(32) ranlux24_base 1
       (swc_ctor_default TYPE(32) (ranlux24_base :: 32 word swc_params) :: (32 word, 32 word) swc))
     (swc_seed TYPE(32) ranlux24_base 1
       (advance (swc_next ranlux24_base) 1
         (swc_ctor_default TYPE(32) (ranlux24_base :: 32 word swc_params) :: (32 word, 32 word) swc)))"
  by code_simp

lemma ranlux24_reseed_out_a:
  "fst (swc_next ranlux24_base
     (swc_seed TYPE(32) ranlux24_base 1
       (swc_ctor_default TYPE(32) (ranlux24_base :: 32 word swc_params) :: (32 word, 32 word) swc)))
   = 2496755"
  by code_simp

lemma ranlux24_reseed_out_c:
  "fst (swc_next ranlux24_base
     (swc_seed TYPE(32) ranlux24_base 1
       (advance (swc_next ranlux24_base) 1
         (swc_ctor_default TYPE(32) (ranlux24_base :: 32 word swc_params) :: (32 word, 32 word) swc))))
   = 10118077"
  by code_simp


text \<open>
  C4. For \<^verbatim>\<open>ranlux24_base\<close> over 32-bit words, \<^verbatim>\<open>seed(1)\<close> on a default-constructed
  engine and \<^verbatim>\<open>seed(1)\<close> on an engine constructed from the value 1 leave different
  carry buffers; and \<^verbatim>\<open>seed(1)\<close> on a default-constructed engine and on one that has
  been advanced once leave engines that compare equal and whose next outputs differ.
\<close>

theorem ranlux24_base_reseed_depends_on_prior_state:
  "swc_cy (swc_seed TYPE(32) ranlux24_base 1
     (swc_ctor_default TYPE(32) (ranlux24_base :: 32 word swc_params) :: (32 word, 32 word) swc))
   \<noteq> swc_cy (swc_seed TYPE(32) ranlux24_base 1
     (swc_ctor TYPE(32) (ranlux24_base :: 32 word swc_params) 1 :: (32 word, 32 word) swc))
   \<and> swc_eq
     (swc_seed TYPE(32) ranlux24_base 1
       (swc_ctor_default TYPE(32) (ranlux24_base :: 32 word swc_params) :: (32 word, 32 word) swc))
     (swc_seed TYPE(32) ranlux24_base 1
       (advance (swc_next ranlux24_base) 1
         (swc_ctor_default TYPE(32) (ranlux24_base :: 32 word swc_params) :: (32 word, 32 word) swc)))
   \<and> fst (swc_next ranlux24_base
     (swc_seed TYPE(32) ranlux24_base 1
       (swc_ctor_default TYPE(32) (ranlux24_base :: 32 word swc_params) :: (32 word, 32 word) swc)))
   \<noteq> fst (swc_next ranlux24_base
     (swc_seed TYPE(32) ranlux24_base 1
       (advance (swc_next ranlux24_base) 1
         (swc_ctor_default TYPE(32) (ranlux24_base :: 32 word swc_params) :: (32 word, 32 word) swc))))"
proof (intro conjI)
  show "swc_cy (swc_seed TYPE(32) ranlux24_base 1
     (swc_ctor_default TYPE(32) (ranlux24_base :: 32 word swc_params) :: (32 word, 32 word) swc))
   \<noteq> swc_cy (swc_seed TYPE(32) ranlux24_base 1
     (swc_ctor TYPE(32) (ranlux24_base :: 32 word swc_params) 1 :: (32 word, 32 word) swc))"
    unfolding ranlux24_reseed_default_cy ranlux24_reseed_one_cy by simp
  show "swc_eq
     (swc_seed TYPE(32) ranlux24_base 1
       (swc_ctor_default TYPE(32) (ranlux24_base :: 32 word swc_params) :: (32 word, 32 word) swc))
     (swc_seed TYPE(32) ranlux24_base 1
       (advance (swc_next ranlux24_base) 1
         (swc_ctor_default TYPE(32) (ranlux24_base :: 32 word swc_params) :: (32 word, 32 word) swc)))"
    by (rule ranlux24_reseed_eq)
  show "fst (swc_next ranlux24_base
     (swc_seed TYPE(32) ranlux24_base 1
       (swc_ctor_default TYPE(32) (ranlux24_base :: 32 word swc_params) :: (32 word, 32 word) swc)))
   \<noteq> fst (swc_next ranlux24_base
     (swc_seed TYPE(32) ranlux24_base 1
       (advance (swc_next ranlux24_base) 1
         (swc_ctor_default TYPE(32) (ranlux24_base :: 32 word swc_params) :: (32 word, 32 word) swc))))"
    unfolding ranlux24_reseed_out_a ranlux24_reseed_out_c by simp
qed

section \<open>Repeated advancement\<close>

text \<open>
  The loop of \<^verbatim>\<open>discard\<close> composes, and the call after \<open>k\<close> calls returns the last of
  \<open>k + 1\<close> values.
\<close>

lemma advance_add: "advance nxt (a + b) e = advance nxt b (advance nxt a e)"
  by (induction a arbitrary: e) simp_all

lemma advance_Suc_right: "advance nxt (Suc k) e = snd (nxt (advance nxt k e))"
  using advance_add [of nxt k 1 e] by simp

lemma outputs_Suc_right:
  "outputs nxt (Suc k) e = outputs nxt k e @ [fst (nxt (advance nxt k e))]"
  by (induction k arbitrary: e) simp_all

lemma outputs_conv_map:
  "outputs nxt k e = map (\<lambda>j. fst (nxt (advance nxt j e))) [0 ..< k]"
proof (induction k)
  case 0
  show ?case by simp
next
  case (Suc k)
  show ?case by (simp only: outputs_Suc_right Suc.IH upt_Suc_append[OF le0] map_append list.map)
qed

lemma next_after_advance:
  "nxt (advance nxt k e) = (last (outputs nxt (Suc k) e), advance nxt (Suc k) e)"
  by (simp only: outputs_Suc_right advance_Suc_right last_snoc prod.collapse)

text \<open>
  C8. For each of the four engines, \<^verbatim>\<open>discard(z)\<close> followed by one call of
  \<^verbatim>\<open>operator()\<close> returns the last of the values of \<open>z + 1\<close> calls of \<^verbatim>\<open>operator()\<close> and
  leaves the engine in the state those \<open>z + 1\<close> calls leave it in. The adaptor is taken
  over any base engine.
\<close>

theorem discard_then_next:
  "lcg_next pl (lcg_discard pl z el)
     = (last (outputs (lcg_next pl) (Suc (unat z)) el), advance (lcg_next pl) (Suc (unat z)) el)
   \<and> xs_next (xs_discard z ex)
     = (last (outputs xs_next (Suc (unat z)) ex), advance xs_next (Suc (unat z)) ex)
   \<and> swc_next ps (swc_discard ps z es)
     = (last (outputs (swc_next ps) (Suc (unat z)) es), advance (swc_next ps) (Suc (unat z)) es)
   \<and> dbe_next ops pd (dbe_discard ops pd z ed)
     = (last (outputs (dbe_next ops pd) (Suc (unat z)) ed),
        advance (dbe_next ops pd) (Suc (unat z)) ed)"
  unfolding lcg_discard_def xs_discard_def swc_discard_def dbe_discard_def
  by (intro conjI next_after_advance)

section \<open>Properties of the discard-block adaptor\<close>






lemma dbe_reseed_state:
  "dbe_seed (lcg_ops minstd_rand) 1
     (snd (dbe_next (lcg_ops minstd_rand) \<lparr>block_size = 3, used_block = 2\<rparr>
        (dbe_ctor (lcg_ops (minstd_rand :: 32 word lcg_params)) 7 :: (32 word lcg, 32 word) dbe)))
   = Inr \<lparr>dbe_engine = \<lparr>lcg_state = 1\<rparr>, dbe_n = 1\<rparr>"
  by code_simp

lemma dbe_fresh_state:
  "(dbe_ctor (lcg_ops (minstd_rand :: 32 word lcg_params)) 1 :: (32 word lcg, 32 word) dbe)
   = \<lparr>dbe_engine = \<lparr>lcg_state = 1\<rparr>, dbe_n = 0\<rparr>"
  by code_simp

lemma dbe_reseed_eq:
  "dbe_eq (lcg_ops (minstd_rand :: 32 word lcg_params))
     (\<lparr>dbe_engine = \<lparr>lcg_state = 1\<rparr>, dbe_n = 1\<rparr> :: (32 word lcg, 32 word) dbe)
     (dbe_ctor (lcg_ops minstd_rand) 1)"
  by code_simp

lemma dbe_reseed_outputs:
  "outputs (dbe_next (lcg_ops (minstd_rand :: 32 word lcg_params)) \<lparr>block_size = 3, used_block = 2\<rparr>) 2
     (\<lparr>dbe_engine = \<lparr>lcg_state = 1\<rparr>, dbe_n = 1\<rparr> :: (32 word lcg, 32 word) dbe)
   = [48271, 1291390782]"
  by code_simp

lemma dbe_fresh_outputs:
  "outputs (dbe_next (lcg_ops (minstd_rand :: 32 word lcg_params)) \<lparr>block_size = 3, used_block = 2\<rparr>) 2
     (dbe_ctor (lcg_ops minstd_rand) 1 :: (32 word lcg, 32 word) dbe)
   = [48271, 182605794]"
  by code_simp

text \<open>
  C10. Both forms of \<^verbatim>\<open>seed\<close> of the adaptor leave \<^verbatim>\<open>n_\<close> as it is. For
  \<^verbatim>\<open>discard_block_engine<minstd_rand, 3, 2>\<close> over 32-bit words: an adaptor constructed
  from 7, advanced once and reseeded with 1 has the base state 1 and \<^verbatim>\<open>n_ = 1\<close>; it
  compares equal to the adaptor constructed from 1, and the next two outputs of the two
  differ.
\<close>

theorem dbe_seed_keeps_counter:
  "(dbe_seed ops v d = Inr d' \<longrightarrow> dbe_n d' = dbe_n d)
   \<and> (dbe_seed_default ops d = Inr d' \<longrightarrow> dbe_n d' = dbe_n d)
   \<and> dbe_seed (lcg_ops minstd_rand) 1
        (snd (dbe_next (lcg_ops minstd_rand) \<lparr>block_size = 3, used_block = 2\<rparr>
           (dbe_ctor (lcg_ops (minstd_rand :: 32 word lcg_params)) 7 :: (32 word lcg, 32 word) dbe)))
      = Inr \<lparr>dbe_engine = \<lparr>lcg_state = 1\<rparr>, dbe_n = 1\<rparr>
   \<and> dbe_eq (lcg_ops (minstd_rand :: 32 word lcg_params))
        (\<lparr>dbe_engine = \<lparr>lcg_state = 1\<rparr>, dbe_n = 1\<rparr> :: (32 word lcg, 32 word) dbe)
        (dbe_ctor (lcg_ops minstd_rand) 1)
   \<and> outputs (dbe_next (lcg_ops (minstd_rand :: 32 word lcg_params)) \<lparr>block_size = 3, used_block = 2\<rparr>) 2
        (\<lparr>dbe_engine = \<lparr>lcg_state = 1\<rparr>, dbe_n = 1\<rparr> :: (32 word lcg, 32 word) dbe)
      \<noteq> outputs (dbe_next (lcg_ops (minstd_rand :: 32 word lcg_params)) \<lparr>block_size = 3, used_block = 2\<rparr>) 2
        (dbe_ctor (lcg_ops minstd_rand) 1 :: (32 word lcg, 32 word) dbe)"
proof (intro conjI)
  show "dbe_seed ops v d = Inr d' \<longrightarrow> dbe_n d' = dbe_n d"
    by (auto simp: dbe_seed_def split: sum.splits)
  show "dbe_seed_default ops d = Inr d' \<longrightarrow> dbe_n d' = dbe_n d"
    by (auto simp: dbe_seed_default_def split: sum.splits)
  show "outputs (dbe_next (lcg_ops (minstd_rand :: 32 word lcg_params)) \<lparr>block_size = 3, used_block = 2\<rparr>) 2
        (\<lparr>dbe_engine = \<lparr>lcg_state = 1\<rparr>, dbe_n = 1\<rparr> :: (32 word lcg, 32 word) dbe)
      \<noteq> outputs (dbe_next (lcg_ops (minstd_rand :: 32 word lcg_params)) \<lparr>block_size = 3, used_block = 2\<rparr>) 2
        (dbe_ctor (lcg_ops minstd_rand) 1 :: (32 word lcg, 32 word) dbe)"
    unfolding dbe_reseed_outputs dbe_fresh_outputs by simp
qed (rule dbe_reseed_state dbe_reseed_eq)+

theorem dbe_seed_keeps_counter_witness:
  "dbe_n (\<lparr>dbe_engine = \<lparr>lcg_state = 1\<rparr>, dbe_n = 1\<rparr> :: (32 word lcg, 32 word) dbe)
   = dbe_n (snd (dbe_next (lcg_ops minstd_rand) \<lparr>block_size = 3, used_block = 2\<rparr>
           (dbe_ctor (lcg_ops (minstd_rand :: 32 word lcg_params)) 7 :: (32 word lcg, 32 word) dbe)))"
  using dbe_seed_keeps_counter
    [of "lcg_ops (minstd_rand :: 32 word lcg_params)" 1
        "snd (dbe_next (lcg_ops minstd_rand) \<lparr>block_size = 3, used_block = 2\<rparr>
           (dbe_ctor (lcg_ops (minstd_rand :: 32 word lcg_params)) 7 :: (32 word lcg, 32 word) dbe))"
        "\<lparr>dbe_engine = \<lparr>lcg_state = 1\<rparr>, dbe_n = 1\<rparr>"]
  by blast

section \<open>Cadence of the discard-block adaptor\<close>

text \<open>\<^verbatim>\<open>discard\<close> of each engine of the header is the loop over its \<^verbatim>\<open>operator()\<close>.\<close>

lemma lcg_ops_discard: "eng_discard (lcg_ops p) z e = advance (eng_next (lcg_ops p)) (unat z) e"
  by (simp add: lcg_ops_def lcg_discard_def)

lemma xs_ops_discard: "eng_discard xs_ops z e = advance (eng_next xs_ops) (unat z) e"
  by (simp add: xs_ops_def xs_discard_def)

lemma swc_ops_discard:
  "eng_discard (swc_ops fast32 p) z e = advance (eng_next (swc_ops fast32 p)) (unat z) e"
  by (simp add: swc_ops_def swc_discard_def)

lemma dbe_ops_discard:
  "eng_discard (dbe_ops ops p) z d = advance (eng_next (dbe_ops ops p)) (unat z) d"
  by (simp add: dbe_ops_def dbe_discard_def)

text \<open>
  The \<open>j\<close>-th value returned by an adaptor that starts with \<^verbatim>\<open>n_ = 0\<close> is the value of
  the base engine's advancement number \<open>j div R * P + j mod R\<close> (counting from 0). These
  are the numbers \<open>i\<close> with \<open>i mod P < R\<close>, and any \<open>P\<close> consecutive numbers hold \<open>R\<close> of
  them.
\<close>

lemma position_Suc:
  fixes P R j :: nat
  assumes "0 < R" and "R \<le> P"
  shows "Suc j div R * P + Suc j mod R =
           (if Suc (j mod R) = R then Suc (j div R * P + j mod R) + (P - R)
            else Suc (j div R * P + j mod R))"
proof (cases "Suc (j mod R) = R")
  case True
  then have "Suc j mod R = 0" and "Suc j div R = Suc (j div R)"
    by (simp_all add: mod_Suc div_Suc)
  with True assms show ?thesis by simp
next
  case False
  then have "Suc j mod R = Suc (j mod R)" and "Suc j div R = j div R"
    by (simp_all add: mod_Suc div_Suc)
  with False show ?thesis by simp
qed

lemma surfaced_iff:
  fixes P R i :: nat
  assumes "0 < R" and "R \<le> P"
  shows "(\<exists>j. i = j div R * P + j mod R) \<longleftrightarrow> i mod P < R"
proof
  assume "\<exists>j. i = j div R * P + j mod R"
  then obtain j where i: "i = j div R * P + j mod R" ..
  have "j mod R < P" using assms by (meson mod_less_divisor less_le_trans)
  then have "i mod P = j mod R" by (simp add: i)
  then show "i mod P < R" using assms by simp
next
  assume lt: "i mod P < R"
  let ?j = "i div P * R + i mod P"
  have "?j div R = i div P" and "?j mod R = i mod P" using lt by simp_all
  then have "i = ?j div R * P + ?j mod R" by simp
  then show "\<exists>j. i = j div R * P + j mod R" ..
qed

lemma window_count:
  fixes P R a :: nat
  assumes "R \<le> P"
  shows "card {i \<in> {a ..< a + P}. i mod P < R} = R"
proof (induction a)
  case 0
  have "{i \<in> {0 ..< 0 + P}. i mod P < R} = {0 ..< R}" using assms by auto
  then show ?case by simp
next
  case (Suc a)
  let ?f = "\<lambda>i. if i = a then a + P else i"
  have img: "{i \<in> {Suc a ..< Suc a + P}. i mod P < R} = ?f ` {i \<in> {a ..< a + P}. i mod P < R}"
  proof (cases "P = 0")
    case True
    then show ?thesis by simp
  next
    case False
    show ?thesis
    proof (intro set_eqI iffI)
      fix x
      assume x: "x \<in> {i \<in> {Suc a ..< Suc a + P}. i mod P < R}"
      show "x \<in> ?f ` {i \<in> {a ..< a + P}. i mod P < R}"
      proof (cases "x = a + P")
        case True
        with x False have "a \<in> {i \<in> {a ..< a + P}. i mod P < R}" by simp
        moreover have "?f a = x" using True by simp
        ultimately show ?thesis by blast
      next
        case False
        with x have "x \<in> {i \<in> {a ..< a + P}. i mod P < R}" by simp
        moreover have "?f x = x" using x by simp
        ultimately show ?thesis by force
      qed
    next
      fix x
      assume "x \<in> ?f ` {i \<in> {a ..< a + P}. i mod P < R}"
      then obtain i where mem: "i \<in> {i \<in> {a ..< a + P}. i mod P < R}" and x: "x = ?f i"
        by (rule imageE)
      from mem have i: "a \<le> i" "i < a + P" "i mod P < R" by simp_all
      show "x \<in> {i \<in> {Suc a ..< Suc a + P}. i mod P < R}"
        using i x False by (cases "i = a") simp_all
    qed
  qed
  have "inj_on ?f {i \<in> {a ..< a + P}. i mod P < R}"
    by (auto simp: inj_on_def)
  then show ?case using Suc.IH by (simp only: img card_image)
qed


text \<open>Conversions of the counter and of the difference \<^verbatim>\<open>block_size - used_block\<close>.\<close>

lemma unat_ucast_size_t:
  fixes x :: "('s::len) word"
  assumes "LENGTH('s) \<le> 64"
  shows "unat (ucast x :: ull) = unat x"
proof -
  have "unat x < 2 ^ LENGTH('s)" by (rule unsigned_less)
  also have "(2::nat) ^ LENGTH('s) \<le> 2 ^ LENGTH(64)"
    using assms by (intro power_increasing) simp_all
  finally have "unat x < 2 ^ LENGTH(64)" .
  then have "take_bit LENGTH(64) (unat x) = unat x" by (rule take_bit_nat_eq_self)
  then show ?thesis by (simp only: unsigned_ucast_eq)
qed

lemma unat_word_succ:
  fixes x y :: "('s::len) word"
  assumes "x < y"
  shows "unat (x + 1) = Suc (unat x)"
proof -
  have a: "unat x < unat y" using assms by (simp add: word_less_nat_alt)
  have b: "unat y < 2 ^ LENGTH('s)" by (rule unsigned_less)
  have "Suc (unat x) < 2 ^ LENGTH('s)" using a b by linarith
  then have "unat x + unat (1 :: 's word) < 2 ^ LENGTH('s)" by simp
  then have "unat (x + 1) = unat x + unat (1 :: 's word)" by (simp only: unat_add_lem)
  then show ?thesis by simp
qed

text \<open>The two branches of \<^verbatim>\<open>operator()\<close>.\<close>

lemma dbe_next_keep:
  fixes p :: "('s::len) word dbe_params"
  assumes "dbe_n d < used_block p"
  shows "dbe_next ops p d =
           (fst (eng_next ops (dbe_engine d)),
            d\<lparr>dbe_engine := snd (eng_next ops (dbe_engine d)), dbe_n := dbe_n d + 1\<rparr>)"
  using assms by (simp add: dbe_next_def Let_def not_le [symmetric] split: prod.splits)

lemma dbe_next_skip:
  fixes p :: "('s::len) word dbe_params"
  assumes len: "LENGTH('s) \<le> 64"
    and le: "used_block p \<le> block_size p"
    and full: "used_block p \<le> dbe_n d"
    and loop: "\<forall>z e. eng_discard ops z e = advance (eng_next ops) (unat z) e"
  shows "dbe_next ops p d =
           (fst (eng_next ops
              (advance (eng_next ops) (unat (block_size p) - unat (used_block p)) (dbe_engine d))),
            d\<lparr>dbe_engine := snd (eng_next ops
              (advance (eng_next ops) (unat (block_size p) - unat (used_block p)) (dbe_engine d))),
              dbe_n := 1\<rparr>)"
proof -
  have "unat (ucast (block_size p - used_block p) :: ull) = unat (block_size p) - unat (used_block p)"
    using len le by (simp add: unat_ucast_size_t unat_sub)
  then show ?thesis
    using full loop by (simp add: dbe_next_def Let_def split: prod.splits)
qed

text \<open>
  After \<open>k + 1\<close> calls the base engine has been advanced \<open>k div R * P + k mod R + 1\<close> times
  and the counter is \<open>k mod R + 1\<close>.
\<close>

lemma dbe_invariant:
  fixes p :: "('s::len) word dbe_params"
  assumes len: "LENGTH('s) \<le> 64"
    and pos: "0 < used_block p"
    and le: "used_block p \<le> block_size p"
    and loop: "\<forall>z e. eng_discard ops z e = advance (eng_next ops) (unat z) e"
  shows "dbe_engine (advance (dbe_next ops p) (Suc k) (dbe_ctor_engine e0))
           = advance (eng_next ops)
               (Suc (k div unat (used_block p) * unat (block_size p) + k mod unat (used_block p))) e0
         \<and> unat (dbe_n (advance (dbe_next ops p) (Suc k) (dbe_ctor_engine e0)))
           = Suc (k mod unat (used_block p))"
proof (induction k)
  case 0
  have "dbe_n (dbe_ctor_engine e0 :: ('a, 's word) dbe) < used_block p"
    using pos by (simp add: dbe_ctor_engine_def)
  from dbe_next_keep [where ops = ops, OF this] show ?case
    using pos by (simp add: dbe_ctor_engine_def word_less_nat_alt)
next
  case (Suc k)
  define R where "R = unat (used_block p)"
  define P where "P = unat (block_size p)"
  define D where "D = advance (dbe_next ops p) (Suc k) (dbe_ctor_engine e0)"
  define pk where "pk = k div R * P + k mod R"
  have R: "0 < R" "R \<le> P"
    using pos le by (simp_all add: R_def P_def word_less_nat_alt word_le_nat_alt)
  from Suc.IH have eng: "dbe_engine D = advance (eng_next ops) (Suc pk) e0"
    and cnt: "unat (dbe_n D) = Suc (k mod R)"
    by (simp_all only: D_def pk_def R_def P_def)
  have step: "advance (dbe_next ops p) (Suc (Suc k)) (dbe_ctor_engine e0) = snd (dbe_next ops p D)"
    unfolding D_def by (rule advance_Suc_right)
  have goal: "dbe_engine (snd (dbe_next ops p D))
                = advance (eng_next ops) (Suc (Suc k div R * P + Suc k mod R)) e0
              \<and> unat (dbe_n (snd (dbe_next ops p D))) = Suc (Suc k mod R)"
  proof (cases "Suc (k mod R) = R")
    case True
    then have "used_block p \<le> dbe_n D" using cnt by (simp add: word_le_nat_alt R_def)
    from dbe_next_skip [where ops = ops, OF len le this loop]
    have nxt: "snd (dbe_next ops p D) =
            D\<lparr>dbe_engine := snd (eng_next ops (advance (eng_next ops) (P - R) (dbe_engine D))),
              dbe_n := 1\<rparr>" by (simp add: P_def R_def)
    have "snd (eng_next ops (advance (eng_next ops) (P - R) (dbe_engine D)))
        = advance (eng_next ops) (Suc (Suc pk + (P - R))) e0"
      by (simp only: eng advance_Suc_right [symmetric] advance_add [symmetric])
    moreover have "Suc k div R * P + Suc k mod R = Suc pk + (P - R)"
      using True by (simp add: position_Suc [OF R] pk_def)
    moreover have "Suc k mod R = 0" using True by (simp add: mod_Suc)
    ultimately show ?thesis by (simp add: nxt del: advance.simps)
  next
    case False
    have "k mod R < R" using R by simp
    with False have "Suc (k mod R) < R" by simp
    then have lt: "dbe_n D < used_block p" using cnt by (simp add: word_less_nat_alt R_def)
    from dbe_next_keep [where ops = ops, OF lt]
    have nxt: "snd (dbe_next ops p D) =
            D\<lparr>dbe_engine := snd (eng_next ops (dbe_engine D)), dbe_n := dbe_n D + 1\<rparr>" by simp
    have "snd (eng_next ops (dbe_engine D)) = advance (eng_next ops) (Suc (Suc pk)) e0"
      by (simp only: eng advance_Suc_right [symmetric])
    moreover have "Suc k div R * P + Suc k mod R = Suc pk"
      using False by (simp add: position_Suc [OF R] pk_def)
    moreover have "unat (dbe_n D + 1) = Suc (Suc (k mod R))"
      using unat_word_succ [OF lt] cnt by simp
    moreover have "Suc k mod R = Suc (k mod R)" using False by (simp add: mod_Suc)
    ultimately show ?thesis by (simp add: nxt del: advance.simps)
  qed
  then show ?case by (simp only: step R_def P_def)
qed

lemma dbe_nth_output:
  fixes p :: "('s::len) word dbe_params"
  assumes len: "LENGTH('s) \<le> 64"
    and pos: "0 < used_block p"
    and le: "used_block p \<le> block_size p"
    and loop: "\<forall>z e. eng_discard ops z e = advance (eng_next ops) (unat z) e"
  shows "fst (dbe_next ops p (advance (dbe_next ops p) k (dbe_ctor_engine e0)))
           = fst (eng_next ops (advance (eng_next ops)
               (k div unat (used_block p) * unat (block_size p) + k mod unat (used_block p)) e0))"
proof (cases k)
  case 0
  have "dbe_n (dbe_ctor_engine e0 :: ('a, 's word) dbe) < used_block p"
    using pos by (simp add: dbe_ctor_engine_def)
  from dbe_next_keep [where ops = ops, OF this] show ?thesis
    using 0 by (simp add: dbe_ctor_engine_def)
next
  case (Suc j)
  define R where "R = unat (used_block p)"
  define P where "P = unat (block_size p)"
  define D where "D = advance (dbe_next ops p) (Suc j) (dbe_ctor_engine e0)"
  define pj where "pj = j div R * P + j mod R"
  have R: "0 < R" "R \<le> P"
    using pos le by (simp_all add: R_def P_def word_less_nat_alt word_le_nat_alt)
  from dbe_invariant [OF len pos le loop, of j e0]
  have eng: "dbe_engine D = advance (eng_next ops) (Suc pj) e0"
    and cnt: "unat (dbe_n D) = Suc (j mod R)"
    by (simp_all only: D_def pj_def R_def P_def)
  have "fst (dbe_next ops p D)
          = fst (eng_next ops (advance (eng_next ops) (Suc j div R * P + Suc j mod R) e0))"
  proof (cases "Suc (j mod R) = R")
    case True
    then have "used_block p \<le> dbe_n D" using cnt by (simp add: word_le_nat_alt R_def)
    from dbe_next_skip [where ops = ops, OF len le this loop]
    have "fst (dbe_next ops p D) =
            fst (eng_next ops (advance (eng_next ops) (P - R) (dbe_engine D)))"
      by (simp add: P_def R_def)
    moreover have "advance (eng_next ops) (P - R) (dbe_engine D)
        = advance (eng_next ops) (Suc pj + (P - R)) e0"
      by (simp only: eng advance_add [symmetric])
    moreover have "Suc j div R * P + Suc j mod R = Suc pj + (P - R)"
      using True by (simp add: position_Suc [OF R] pj_def)
    ultimately show ?thesis by (simp del: advance.simps)
  next
    case False
    have "j mod R < R" using R by simp
    with False have "Suc (j mod R) < R" by simp
    then have lt: "dbe_n D < used_block p" using cnt by (simp add: word_less_nat_alt R_def)
    from dbe_next_keep [where ops = ops, OF lt]
    have "fst (dbe_next ops p D) = fst (eng_next ops (dbe_engine D))" by simp
    moreover have "Suc j div R * P + Suc j mod R = Suc pj"
      using False by (simp add: position_Suc [OF R] pj_def)
    ultimately show ?thesis by (simp add: eng del: advance.simps)
  qed
  then show ?thesis by (simp only: Suc D_def R_def P_def)
qed


text \<open>
  C7. With \<open>0 < R \<le> P\<close> (and \<^verbatim>\<open>std::size_t\<close> no wider than \<^verbatim>\<open>unsigned long long\<close>), over
  a base engine whose \<^verbatim>\<open>discard\<close> is the loop over its \<^verbatim>\<open>operator()\<close>: each call of
  \<^verbatim>\<open>operator()\<close> first, if \<open>n \<ge> R\<close>, advances the base engine \<open>P - R\<close> times and sets
  \<open>n\<close> to 0, then increments \<open>n\<close> and returns the base engine's next value. The values
  returned by an adaptor constructed over the base engine \<open>e0\<close> are the values of the
  base engine's advancements number \<open>j div R * P + j mod R\<close>; after \<open>k + 1\<close> calls the base
  engine has made all the advancements up to that number; and among any \<open>P\<close> consecutive
  advancements of the base engine exactly \<open>R\<close> are returned.
\<close>

theorem dbe_cadence:
  fixes p :: "('s::len) word dbe_params" and ops :: "('e, 'v) engine_ops"
  assumes len: "LENGTH('s) \<le> 64"
    and pos: "0 < used_block p"
    and le: "used_block p \<le> block_size p"
    and loop: "\<forall>z e. eng_discard ops z e = advance (eng_next ops) (unat z) e"
  shows "dbe_next ops p d =
           (let d1 = (if used_block p \<le> dbe_n d
                      then d\<lparr>dbe_engine := advance (eng_next ops)
                                (unat (block_size p) - unat (used_block p)) (dbe_engine d),
                             dbe_n := 0\<rparr>
                      else d)
            in (fst (eng_next ops (dbe_engine d1)),
                d1\<lparr>dbe_engine := snd (eng_next ops (dbe_engine d1)), dbe_n := dbe_n d1 + 1\<rparr>))
       \<and> outputs (dbe_next ops p) k (dbe_ctor_engine e0)
           = map (\<lambda>j. fst (eng_next ops (advance (eng_next ops)
                   (j div unat (used_block p) * unat (block_size p) + j mod unat (used_block p)) e0)))
               [0 ..< k]
       \<and> dbe_engine (advance (dbe_next ops p) (Suc k) (dbe_ctor_engine e0))
           = advance (eng_next ops)
               (Suc (k div unat (used_block p) * unat (block_size p) + k mod unat (used_block p))) e0
       \<and> card {i \<in> {a ..< a + unat (block_size p)}.
                 \<exists>j. i = j div unat (used_block p) * unat (block_size p) + j mod unat (used_block p)}
           = unat (used_block p)"
proof (intro conjI)
  show "dbe_next ops p d =
           (let d1 = (if used_block p \<le> dbe_n d
                      then d\<lparr>dbe_engine := advance (eng_next ops)
                                (unat (block_size p) - unat (used_block p)) (dbe_engine d),
                             dbe_n := 0\<rparr>
                      else d)
            in (fst (eng_next ops (dbe_engine d1)),
                d1\<lparr>dbe_engine := snd (eng_next ops (dbe_engine d1)), dbe_n := dbe_n d1 + 1\<rparr>))"
  proof (cases "used_block p \<le> dbe_n d")
    case True
    from dbe_next_skip [where ops = ops, OF len le True loop] True
    show ?thesis by (simp add: Let_def)
  next
    case False
    then have "dbe_n d < used_block p" by simp
    from dbe_next_keep [where ops = ops, OF this] False
    show ?thesis by (simp add: Let_def)
  qed
next
  show "outputs (dbe_next ops p) k (dbe_ctor_engine e0)
           = map (\<lambda>j. fst (eng_next ops (advance (eng_next ops)
                   (j div unat (used_block p) * unat (block_size p) + j mod unat (used_block p)) e0)))
               [0 ..< k]"
    by (simp only: outputs_conv_map dbe_nth_output [OF len pos le loop])
next
  show "dbe_engine (advance (dbe_next ops p) (Suc k) (dbe_ctor_engine e0))
           = advance (eng_next ops)
               (Suc (k div unat (used_block p) * unat (block_size p) + k mod unat (used_block p))) e0"
    using dbe_invariant [OF len pos le loop, of k e0] by (rule conjunct1)
next
  have R: "0 < unat (used_block p)" "unat (used_block p) \<le> unat (block_size p)"
    using pos le by (simp_all add: word_less_nat_alt word_le_nat_alt)
  show "card {i \<in> {a ..< a + unat (block_size p)}.
                 \<exists>j. i = j div unat (used_block p) * unat (block_size p) + j mod unat (used_block p)}
           = unat (used_block p)"
    by (simp only: surfaced_iff [OF R] window_count [OF R(2)])
qed

theorem dbe_cadence_witness:
  "outputs (dbe_next (swc_ops TYPE(32) ranlux24_base) (ranlux24 :: 32 word dbe_params)) 30
      (dbe_ctor_engine (swc_ctor_default TYPE(32) ranlux24_base :: (32 word, 32 word) swc))
     = map (\<lambda>j. fst (eng_next (swc_ops TYPE(32) ranlux24_base)
             (advance (eng_next (swc_ops TYPE(32) ranlux24_base))
               (j div unat (used_block (ranlux24 :: 32 word dbe_params))
                  * unat (block_size (ranlux24 :: 32 word dbe_params))
                + j mod unat (used_block (ranlux24 :: 32 word dbe_params)))
               (swc_ctor_default TYPE(32) ranlux24_base :: (32 word, 32 word) swc))))
         [0 ..< 30]
   \<and> card {i \<in> {223 ..< 223 + unat (block_size (ranlux24 :: 32 word dbe_params))}.
             \<exists>j. i = j div unat (used_block (ranlux24 :: 32 word dbe_params))
                        * unat (block_size (ranlux24 :: 32 word dbe_params))
                      + j mod unat (used_block (ranlux24 :: 32 word dbe_params))}
       = unat (used_block (ranlux24 :: 32 word dbe_params))
   \<and> unat (used_block (ranlux24 :: 32 word dbe_params)) = 23
   \<and> unat (block_size (ranlux24 :: 32 word dbe_params)) = 223"
proof -
  have len: "LENGTH(32) \<le> 64" by simp
  have pos: "0 < used_block (ranlux24 :: 32 word dbe_params)" by (simp add: ranlux24_def)
  have le: "used_block (ranlux24 :: 32 word dbe_params) \<le> block_size ranlux24"
    by (simp add: ranlux24_def)
  have loop: "\<forall>z e. eng_discard (swc_ops TYPE(32) ranlux24_base :: ((32 word, 32 word) swc, 32 word) engine_ops) z e
      = advance (eng_next (swc_ops TYPE(32) ranlux24_base)) (unat z) e"
    by (simp add: swc_ops_discard)
  note c = dbe_cadence [OF len pos le loop]
  have u: "unat (used_block (ranlux24 :: 32 word dbe_params)) = 23"
    and b: "unat (block_size (ranlux24 :: 32 word dbe_params)) = 223"
    by (simp_all add: ranlux24_def)
  have o: "outputs (dbe_next (swc_ops TYPE(32) ranlux24_base) (ranlux24 :: 32 word dbe_params)) 30
      (dbe_ctor_engine (swc_ctor_default TYPE(32) ranlux24_base :: (32 word, 32 word) swc))
     = map (\<lambda>j. fst (eng_next (swc_ops TYPE(32) ranlux24_base)
             (advance (eng_next (swc_ops TYPE(32) ranlux24_base))
               (j div unat (used_block (ranlux24 :: 32 word dbe_params))
                  * unat (block_size (ranlux24 :: 32 word dbe_params))
                + j mod unat (used_block (ranlux24 :: 32 word dbe_params)))
               (swc_ctor_default TYPE(32) ranlux24_base :: (32 word, 32 word) swc))))
         [0 ..< 30]"
    by (rule c [THEN conjunct2, THEN conjunct1])
  have k: "card {i \<in> {223 ..< 223 + unat (block_size (ranlux24 :: 32 word dbe_params))}.
             \<exists>j. i = j div unat (used_block (ranlux24 :: 32 word dbe_params))
                        * unat (block_size (ranlux24 :: 32 word dbe_params))
                      + j mod unat (used_block (ranlux24 :: 32 word dbe_params))}
       = unat (used_block (ranlux24 :: 32 word dbe_params))"
    by (rule c [THEN conjunct2, THEN conjunct2, THEN conjunct2])
  show ?thesis
    by (intro conjI o k u b)
qed

end
